theory Spec2Isabelle
  imports Complex_Main "HOL-Library.Multiset"
begin

section \<open>Values\<close>

text \<open>
  The program handles the values that \<^verbatim>\<open>response.json()\<close> produces: \<^verbatim>\<open>None\<close>,
  booleans, integers, floats, strings, lists and dicts. An integer is unbounded, as in
  Python. A finite float is modelled by the number it denotes, and \<^verbatim>\<open>nan\<close> is a value of
  its own. A string is a list of characters, a character being a code point below 256. A
  dict is the list of its items in insertion order, looked up from the front.
\<close>

datatype json =
    JNull
  | JBool bool
  | JInt int
  | JFloat real
  | JNaN
  | JStr string
  | JList "json list"
  | JDict "(string \<times> json) list"

text \<open>The exceptions the modelled functions can raise.\<close>

datatype pyerr =
    AttributeError
  | TypeError
  | JSONDecodeError
  | ConnectionError
  | IntegrityError
  | InterfaceError
  | OperationalError
  | OverflowError
  | ValueError

definition bind_r :: "pyerr + 'a \<Rightarrow> ('a \<Rightarrow> pyerr + 'b) \<Rightarrow> pyerr + 'b" where
  "bind_r m f = (case m of Inl e \<Rightarrow> Inl e | Inr v \<Rightarrow> f v)"

text \<open>\<^verbatim>\<open>d.get(key, default)\<close> on a dict.\<close>

definition dict_get :: "(string \<times> json) list \<Rightarrow> string \<Rightarrow> json \<Rightarrow> json" where
  "dict_get kvs k d = (case map_of kvs k of None \<Rightarrow> d | Some v \<Rightarrow> v)"

text \<open>
  \<^verbatim>\<open>obj.get(key, default)\<close> on any value: only a dict has the method, on every other
  value the attribute lookup raises.
\<close>

fun py_get :: "json \<Rightarrow> string \<Rightarrow> json \<Rightarrow> pyerr + json" where
  "py_get (JDict kvs) k d = Inr (dict_get kvs k d)"
| "py_get _ k d = Inl AttributeError"

text \<open>The truth value of a value, as \<^verbatim>\<open>if\<close> and \<^verbatim>\<open>or\<close> take it.\<close>

fun truthy :: "json \<Rightarrow> bool" where
  "truthy JNull = False"
| "truthy (JBool b) = b"
| "truthy (JInt i) = (i \<noteq> 0)"
| "truthy (JFloat x) = (x \<noteq> 0)"
| "truthy JNaN = True"
| "truthy (JStr s) = (s \<noteq> [])"
| "truthy (JList xs) = (xs \<noteq> [])"
| "truthy (JDict kvs) = (kvs \<noteq> [])"

text \<open>\<^verbatim>\<open>sep.join(parts)\<close> on a list of strings.\<close>

fun join :: "string \<Rightarrow> string list \<Rightarrow> string" where
  "join sep [] = []"
| "join sep [s] = s"
| "join sep (s # t # ss) = s @ sep @ join sep (t # ss)"

text \<open>
  The elements of a list as strings, when every one is a string; \<^verbatim>\<open>join\<close> raises
  \<^verbatim>\<open>TypeError\<close> at an element that is not.
\<close>

fun str_items :: "json list \<Rightarrow> string list option" where
  "str_items [] = Some []"
| "str_items (JStr s # xs) = (case str_items xs of None \<Rightarrow> None | Some ss \<Rightarrow> Some (s # ss))"
| "str_items (_ # xs) = None"

text \<open>
  \<^verbatim>\<open>sep.join(v)\<close> on any value. A list must hold strings only; a string is iterated
  character by character, a dict key by key; nothing else is iterable.
\<close>

fun py_join :: "string \<Rightarrow> json \<Rightarrow> pyerr + string" where
  "py_join sep (JList xs) = (case str_items xs of None \<Rightarrow> Inl TypeError | Some ss \<Rightarrow> Inr (join sep ss))"
| "py_join sep (JStr s) = Inr (join sep (map (\<lambda>c. [c]) s))"
| "py_join sep (JDict kvs) = Inr (join sep (remdups (map fst kvs)))"
| "py_join sep _ = Inl TypeError"

text \<open>\<^verbatim>\<open>s or default\<close> on a string \<^verbatim>\<open>s\<close>.\<close>

definition str_or :: "string \<Rightarrow> string \<Rightarrow> string" where
  "str_or s d = (if s \<noteq> [] then s else d)"

text \<open>
  \<^verbatim>\<open>str.isdigit\<close> on one character: the decimal digits and, among the code points
  below 256, the superscripts two, three and one.
\<close>

definition isdigit_char :: "char \<Rightarrow> bool" where
  "isdigit_char c =
     (let n = (of_char c :: nat)
      in (48 \<le> n \<and> n \<le> 57) \<or> n = 178 \<or> n = 179 \<or> n = 185)"

text \<open>\<^verbatim>\<open>s.isdigit()\<close>: false on the empty string.\<close>

definition isdigit :: "string \<Rightarrow> bool" where
  "isdigit s = (s \<noteq> [] \<and> list_all isdigit_char s)"

text \<open>
  \<^verbatim>\<open>float(i)\<close> for an integer within the range of the floats: the nearest number with
  53 significant bits and, of two nearest, the one whose last bit is 0. This is the
  conversion that the C library, pandas and SQLite make of a 64-bit integer.
\<close>

fun bitlen :: "nat \<Rightarrow> nat" where
  "bitlen n = (if n = 0 then 0 else Suc (bitlen (n div 2)))"

definition round53 :: "nat \<Rightarrow> nat" where
  "round53 a =
     (if a < 2 ^ 53 then a
      else (let s = 2 ^ (bitlen a - 53); q = a div s; r = a mod s
            in if s < 2 * r \<or> (2 * r = s \<and> odd q) then (q + 1) * s else q * s))"

definition py_float :: "int \<Rightarrow> real" where
  "py_float i = (if i < 0 then - real (round53 (nat (- i))) else real (round53 (nat i)))"

section \<open>Transformer\<close>

text \<open>Lines 38 to 41 of \<^verbatim>\<open>transform_data\<close>: the year of a published date.\<close>

definition published_year_of :: "json \<Rightarrow> string" where
  "published_year_of published_date =
     (case published_date of
        JStr s \<Rightarrow> if length s \<ge> 4 \<and> isdigit (take 4 s) then take 4 s else ''Unknown''
      | _ \<Rightarrow> ''Unknown'')"

type_synonym row = "(string \<times> json) list"

text \<open>
  The body of the loop of \<^verbatim>\<open>transform_data\<close>: the dict appended to \<^verbatim>\<open>data\<close> for one
  book, or the exception raised on the way, in the order in which Python evaluates the
  statements and the entries of the dict display.
\<close>

definition transform_book :: "json \<Rightarrow> pyerr + row" where
  "transform_book book =
     bind_r (py_get book ''volumeInfo'' (JDict [])) (\<lambda>volume_info.
     bind_r (py_get book ''saleInfo'' (JDict [])) (\<lambda>sale_info.
     bind_r (py_get sale_info ''listPrice'' (JDict [])) (\<lambda>list_price.
     bind_r (py_get sale_info ''retailPrice'' (JDict [])) (\<lambda>retail_price.
     bind_r (py_get volume_info ''publishedDate'' (JStr ''Unknown'')) (\<lambda>published_date.
     let published_year = published_year_of published_date in
     bind_r (py_get book ''id'' JNull) (\<lambda>book_id.
     bind_r (py_get volume_info ''title'' (JStr ''N/A'')) (\<lambda>title.
     bind_r (py_get volume_info ''subtitle'' (JStr ''N/A'')) (\<lambda>subtitle.
     bind_r (py_get volume_info ''authors'' (JList [JStr ''Unknown Author''])) (\<lambda>authors_src.
     bind_r (py_join '', '' authors_src) (\<lambda>authors.
     bind_r (py_get volume_info ''description'' (JStr ''No description available.'')) (\<lambda>description.
     bind_r (py_get volume_info ''categories'' (JList [JStr ''N/A''])) (\<lambda>categories_src.
     bind_r (py_join '', '' categories_src) (\<lambda>categories.
     bind_r (py_get volume_info ''pageCount'' (JInt 0)) (\<lambda>page_count.
     bind_r (py_get volume_info ''language'' (JStr ''Unknown'')) (\<lambda>language.
     bind_r (py_get volume_info ''imageLinks'' (JDict [])) (\<lambda>image_links.
     bind_r (py_get image_links ''thumbnail'' (JStr '''')) (\<lambda>image_link.
     bind_r (py_get volume_info ''averageRating'' (JInt 0)) (\<lambda>average_rating.
     bind_r (py_get volume_info ''ratingsCount'' (JInt 0)) (\<lambda>ratings_count.
     bind_r (py_get volume_info ''publisher'' (JStr ''Unknown Publisher'')) (\<lambda>publisher.
     bind_r (py_get sale_info ''isEbook'' (JBool False)) (\<lambda>is_ebook_src.
     bind_r (py_get sale_info ''saleability'' (JStr ''Not for Sale'')) (\<lambda>saleability.
     bind_r (py_get list_price ''amount'' (JInt 0)) (\<lambda>amount_list_price.
     bind_r (py_get list_price ''currencyCode'' (JStr '''')) (\<lambda>currency_code_list_price.
     bind_r (py_get retail_price ''amount'' (JInt 0)) (\<lambda>amount_retail_price.
     bind_r (py_get retail_price ''currencyCode'' (JStr '''')) (\<lambda>currency_code_retail_price.
     bind_r (py_get sale_info ''buyLink'' (JStr '''')) (\<lambda>buy_link.
     bind_r (py_get sale_info ''country'' (JStr ''N/A'')) (\<lambda>country.
     Inr [(''book_id'', book_id),
          (''title'', title),
          (''subtitle'', subtitle),
          (''authors'', JStr (str_or authors ''Unknown Author'')),
          (''description'', description),
          (''categories'', JStr (str_or categories ''N/A'')),
          (''page_count'', page_count),
          (''language'', language),
          (''image_link'', image_link),
          (''average_rating'', average_rating),
          (''ratings_count'', ratings_count),
          (''publisher'', publisher),
          (''published_year'', JStr published_year),
          (''is_ebook'', if truthy is_ebook_src then JInt 1 else JInt 0),
          (''saleability'', saleability),
          (''amount_list_price'', amount_list_price),
          (''currency_code_list_price'', currency_code_list_price),
          (''amount_retail_price'', amount_retail_price),
          (''currency_code_retail_price'', currency_code_retail_price),
          (''buy_link'', buy_link),
          (''country'', country)]))))))))))))))))))))))))))))"

text \<open>
  The loop of \<^verbatim>\<open>transform_data\<close> over the books, stopping at the first exception:
  \<open>transform_data\<close> is the list \<^verbatim>\<open>data\<close> of the records built, as it stands when the
  function reaches its last statement. The frame that the last statement makes of the list
  and returns, \<^verbatim>\<open>pd.DataFrame(data)\<close>, is \<open>transform_frame\<close> below.
\<close>

fun transform_loop :: "json list \<Rightarrow> row list \<Rightarrow> pyerr + row list" where
  "transform_loop [] data = Inr data"
| "transform_loop (book # books) data =
     (case transform_book book of
        Inl e \<Rightarrow> Inl e
      | Inr r \<Rightarrow> transform_loop books (data @ [r]))"

definition transform_data :: "json list \<Rightarrow> pyerr + row list" where
  "transform_data books = transform_loop books []"

text \<open>
  \<^verbatim>\<open>pd.DataFrame(data)\<close> on a list of dicts with the same keys in the same order. The
  frame has one row for each dict, in order, and the keys as columns. pandas gives each
  column one type, inferred from all its cells, and converts the cells to it. The columns
  modelled are those of strings only (kept as they are), those of integers of 64 bits only
  (\<^verbatim>\<open>int64\<close>, kept as they are) and those of such integers, floats and \<^verbatim>\<open>None\<close> with
  a float, or an integer and a \<^verbatim>\<open>None\<close>, among them (\<^verbatim>\<open>float64\<close>: an integer
  becomes the float nearest to it, \<^verbatim>\<open>None\<close> becomes \<^verbatim>\<open>nan\<close>). Of a list with another
  column, or with dicts of different keys, the model says nothing (\<open>None\<close>).
\<close>

datatype dtype = Int64 | Float64 | Object

fun is_str :: "json \<Rightarrow> bool" where
  "is_str (JStr s) = True"
| "is_str _ = False"

fun is_int64 :: "json \<Rightarrow> bool" where
  "is_int64 (JInt i) = (- (2 ^ 63) \<le> i \<and> i < 2 ^ 63)"
| "is_int64 _ = False"

fun is_float :: "json \<Rightarrow> bool" where
  "is_float (JFloat x) = True"
| "is_float JNaN = True"
| "is_float _ = False"

fun is_none :: "json \<Rightarrow> bool" where
  "is_none JNull = True"
| "is_none _ = False"

definition column_dtype :: "json list \<Rightarrow> dtype option" where
  "column_dtype cells =
     (if cells \<noteq> [] \<and> list_all is_str cells then Some Object
      else if cells \<noteq> [] \<and> list_all is_int64 cells then Some Int64
      else if list_all (\<lambda>v. is_int64 v \<or> is_float v \<or> is_none v) cells
              \<and> (list_ex is_float cells \<or> list_ex is_int64 cells) then Some Float64
      else None)"

definition as_dtype :: "dtype \<Rightarrow> json \<Rightarrow> json" where
  "as_dtype d v =
     (case d of
        Float64 \<Rightarrow> (case v of JInt i \<Rightarrow> JFloat (py_float i) | JNull \<Rightarrow> JNaN | _ \<Rightarrow> v)
      | _ \<Rightarrow> v)"

definition data_frame :: "row list \<Rightarrow> row list option" where
  "data_frame data =
     (case data of
        [] \<Rightarrow> Some []
      | r # rs \<Rightarrow>
          if \<not> distinct (map fst r) \<or> \<not> list_all (\<lambda>x. map fst x = map fst r) rs then None
          else (case those (map (\<lambda>c. column_dtype (map (\<lambda>x. dict_get x c JNull) data))
                               (map fst r)) of
                  None \<Rightarrow> None
                | Some dtypes \<Rightarrow>
                    Some (map (\<lambda>x. map (\<lambda>((c, v), d). (c, as_dtype d v)) (zip x dtypes)) data)))"

text \<open>What \<^verbatim>\<open>transform_data\<close> returns, and the cell of a row of it.\<close>

definition transform_frame :: "json list \<Rightarrow> pyerr + row list option" where
  "transform_frame books = bind_r (transform_data books) (\<lambda>data. Inr (data_frame data))"

definition frame_cell :: "pyerr + row list option \<Rightarrow> nat \<Rightarrow> string \<Rightarrow> json option" where
  "frame_cell f i c =
     (case f of
        Inr (Some rows) \<Rightarrow> if i < length rows then map_of (rows ! i) c else None
      | _ \<Rightarrow> None)"

text \<open>
  The columns of a record, the place each is read from in a book and the default the data
  model gives it. \<^verbatim>\<open>book_id\<close> is not listed: the data model gives it no default.
\<close>

definition book_columns :: "string list" where
  "book_columns =
     [''book_id'', ''title'', ''subtitle'', ''authors'', ''description'', ''categories'',
      ''page_count'', ''language'', ''image_link'', ''average_rating'', ''ratings_count'',
      ''publisher'', ''published_year'', ''is_ebook'', ''saleability'', ''amount_list_price'',
      ''currency_code_list_price'', ''amount_retail_price'', ''currency_code_retail_price'',
      ''buy_link'', ''country'']"

definition field_defaults :: "(string \<times> string list \<times> json) list" where
  "field_defaults =
     [(''title'', [''volumeInfo'', ''title''], JStr ''N/A''),
      (''subtitle'', [''volumeInfo'', ''subtitle''], JStr ''N/A''),
      (''authors'', [''volumeInfo'', ''authors''], JStr ''Unknown Author''),
      (''description'', [''volumeInfo'', ''description''], JStr ''No description available.''),
      (''categories'', [''volumeInfo'', ''categories''], JStr ''N/A''),
      (''page_count'', [''volumeInfo'', ''pageCount''], JInt 0),
      (''language'', [''volumeInfo'', ''language''], JStr ''Unknown''),
      (''image_link'', [''volumeInfo'', ''imageLinks'', ''thumbnail''], JStr []),
      (''average_rating'', [''volumeInfo'', ''averageRating''], JInt 0),
      (''ratings_count'', [''volumeInfo'', ''ratingsCount''], JInt 0),
      (''publisher'', [''volumeInfo'', ''publisher''], JStr ''Unknown Publisher''),
      (''published_year'', [''volumeInfo'', ''publishedDate''], JStr ''Unknown''),
      (''is_ebook'', [''saleInfo'', ''isEbook''], JInt 0),
      (''saleability'', [''saleInfo'', ''saleability''], JStr ''Not for Sale''),
      (''amount_list_price'', [''saleInfo'', ''listPrice'', ''amount''], JInt 0),
      (''currency_code_list_price'', [''saleInfo'', ''listPrice'', ''currencyCode''], JStr []),
      (''amount_retail_price'', [''saleInfo'', ''retailPrice'', ''amount''], JInt 0),
      (''currency_code_retail_price'', [''saleInfo'', ''retailPrice'', ''currencyCode''], JStr []),
      (''buy_link'', [''saleInfo'', ''buyLink''], JStr []),
      (''country'', [''saleInfo'', ''country''], JStr ''N/A'')]"

text \<open>The value found in a book by following keys through nested dicts, if there is one.\<close>

fun lookup_path :: "json \<Rightarrow> string list \<Rightarrow> json option" where
  "lookup_path v [] = Some v"
| "lookup_path (JDict kvs) (k # ks) =
     (case map_of kvs k of None \<Rightarrow> None | Some v \<Rightarrow> lookup_path v ks)"
| "lookup_path _ (k # ks) = None"

text \<open>
  The books on which the loop body raises nothing: a dict whose nested records, where
  present, are dicts and whose authors and categories, where present, can be joined.
\<close>

fun is_dict :: "json \<Rightarrow> bool" where
  "is_dict (JDict kvs) = True"
| "is_dict _ = False"

fun joinable :: "json \<Rightarrow> bool" where
  "joinable (JList xs) = (str_items xs \<noteq> None)"
| "joinable (JStr s) = True"
| "joinable (JDict kvs) = True"
| "joinable _ = False"

definition present_ok :: "(json \<Rightarrow> bool) \<Rightarrow> json \<Rightarrow> string list \<Rightarrow> bool" where
  "present_ok P book path = (case lookup_path book path of None \<Rightarrow> True | Some v \<Rightarrow> P v)"

definition well_formed_item :: "json \<Rightarrow> bool" where
  "well_formed_item book =
     (is_dict book
      \<and> present_ok is_dict book [''volumeInfo'']
      \<and> present_ok is_dict book [''saleInfo'']
      \<and> present_ok is_dict book [''saleInfo'', ''listPrice'']
      \<and> present_ok is_dict book [''saleInfo'', ''retailPrice'']
      \<and> present_ok is_dict book [''volumeInfo'', ''imageLinks'']
      \<and> present_ok joinable book [''volumeInfo'', ''authors'']
      \<and> present_ok joinable book [''volumeInfo'', ''categories''])"

section \<open>Fetcher\<close>

text \<open>
  What \<^verbatim>\<open>requests.get\<close> does is the environment's: it raises, or it returns a response
  with a status code and a body, which \<^verbatim>\<open>response.json()\<close> parses or rejects
  (\<open>None\<close>). The environment is a function from the number of the attempt to the reply.
  What the function does to the outside is recorded as a list of events.
\<close>

datatype reply = ConnectionFailed | Reply int "json option"

datatype event =
    Get string int
  | Warning string
  | Error string
  | Sleep nat

text \<open>\<^verbatim>\<open>str(n)\<close> for an integer, as the f-string of the error message formats it.\<close>

fun digits10 :: "nat \<Rightarrow> string" where
  "digits10 n =
     (if n < 10 then [char_of (48 + n)] else digits10 (n div 10) @ [char_of (48 + n mod 10)])"

definition str_int :: "int \<Rightarrow> string" where
  "str_int i = (if i < 0 then CHR ''-'' # digits10 (nat (- i)) else digits10 (nat i))"

text \<open>\<^verbatim>\<open>response.json().get("items", [])\<close>.\<close>

definition response_items :: "json option \<Rightarrow> pyerr + json" where
  "response_items body =
     (case body of None \<Rightarrow> Inl JSONDecodeError | Some j \<Rightarrow> py_get j ''items'' (JList []))"

definition retries :: nat where
  "retries = 3"

text \<open>
  The loop \<^verbatim>\<open>for _ in range(retries)\<close> of \<^verbatim>\<open>fetch_books\<close> over the attempts left:
  the value returned or the exception raised, and the events in order.
\<close>

fun fetch_loop :: "(nat \<Rightarrow> reply) \<Rightarrow> string \<Rightarrow> int \<Rightarrow> nat list \<Rightarrow> (pyerr + json) \<times> event list" where
  "fetch_loop net query max_results [] = (Inr (JList []), [])"
| "fetch_loop net query max_results (i # rest) =
     (case net i of
        ConnectionFailed \<Rightarrow> (Inl ConnectionError, [Get query max_results])
      | Reply status_code body \<Rightarrow>
          if status_code = 200 then (response_items body, [Get query max_results])
          else if status_code = 403 then
            (let (result, events) = fetch_loop net query max_results rest
             in (result,
                 [Get query max_results,
                  Warning ''API request limit reached. Retrying in 10 seconds...'',
                  Sleep 10] @ events))
          else
            (Inr (JList []),
             [Get query max_results, Error (''Error fetching data: '' @ str_int status_code)]))"

definition fetch_books :: "(nat \<Rightarrow> reply) \<Rightarrow> string \<Rightarrow> int \<Rightarrow> (pyerr + json) \<times> event list" where
  "fetch_books net query max_results = fetch_loop net query max_results [0..<retries]"

text \<open>The requests issued, the waits and the errors reported, read off the events.\<close>

fun is_get :: "event \<Rightarrow> bool" where
  "is_get (Get q m) = True"
| "is_get _ = False"

fun is_error :: "event \<Rightarrow> bool" where
  "is_error (Error msg) = True"
| "is_error _ = False"

fun waits :: "event list \<Rightarrow> nat list" where
  "waits [] = []"
| "waits (Sleep d # es) = d # waits es"
| "waits (_ # es) = waits es"

definition attempts :: "event list \<Rightarrow> nat" where
  "attempts es = length (filter is_get es)"

fun is_403 :: "reply \<Rightarrow> bool" where
  "is_403 (Reply status_code body) = (status_code = 403)"
| "is_403 ConnectionFailed = False"

section \<open>Store\<close>

text \<open>
  The database file holds at most the table \<^verbatim>\<open>books\<close>. A table has its declared
  columns, its primary key column and its rows, oldest first. A stored value is \<^verbatim>\<open>NULL\<close>,
  a number or a text.
\<close>

datatype sqlval = SNull | SNum real | SText string

datatype coltype = TEXT | INTEGER | REAL

type_synonym sqlrow = "(string \<times> sqlval) list"

record table =
  tbl_columns :: "(string \<times> coltype) list"
  tbl_pk :: string
  tbl_rows :: "sqlrow list"

text \<open>The columns of the \<^verbatim>\<open>CREATE TABLE\<close> statement of \<^verbatim>\<open>initialize_database\<close>.\<close>

definition books_schema :: "(string \<times> coltype) list" where
  "books_schema =
     [(''book_id'', TEXT),
      (''title'', TEXT),
      (''subtitle'', TEXT),
      (''authors'', TEXT),
      (''description'', TEXT),
      (''categories'', TEXT),
      (''page_count'', INTEGER),
      (''language'', TEXT),
      (''image_link'', TEXT),
      (''average_rating'', REAL),
      (''ratings_count'', INTEGER),
      (''publisher'', TEXT),
      (''published_year'', TEXT),
      (''is_ebook'', INTEGER),
      (''saleability'', TEXT),
      (''amount_list_price'', REAL),
      (''currency_code_list_price'', TEXT),
      (''amount_retail_price'', REAL),
      (''currency_code_retail_price'', TEXT),
      (''buy_link'', TEXT),
      (''country'', TEXT)]"

definition new_books_table :: table where
  "new_books_table = \<lparr>tbl_columns = books_schema, tbl_pk = ''book_id'', tbl_rows = []\<rparr>"

text \<open>
  \<^verbatim>\<open>initialize_database\<close>: \<^verbatim>\<open>CREATE TABLE IF NOT EXISTS books\<close> on the database file,
  which has the table (\<open>Some\<close>) or not (\<open>None\<close>).
\<close>

definition initialize_database :: "table option \<Rightarrow> table option" where
  "initialize_database db =
     (case db of None \<Rightarrow> Some new_books_table | Some t \<Rightarrow> Some t)"








definition cell :: "sqlrow \<Rightarrow> string \<Rightarrow> sqlval" where
  "cell r c = (case map_of r c of None \<Rightarrow> SNull | Some v \<Rightarrow> v)"







section \<open>Query catalog\<close>

text \<open>The dict \<^verbatim>\<open>queries\<close>, in the order of the source.\<close>

definition queries :: "(string \<times> string) list" where
  "queries =
     [(''Availability of eBooks vs Physical Books'',
       ''SELECT CASE WHEN is_ebook = 1 THEN 'eBook' ELSE 'Physical Book' END AS book_type, COUNT(*) AS count FROM books GROUP BY is_ebook''),
      (''Publisher with Most Books Published'',
       ''SELECT publisher, COUNT(*) AS count FROM books GROUP BY publisher ORDER BY count DESC LIMIT 1''),
      (''Publisher with Highest Average Rating'',
       ''SELECT publisher, AVG(average_rating) AS avg_rating FROM books GROUP BY publisher ORDER BY avg_rating DESC LIMIT 1''),
      (''Top 5 Most Expensive Books'',
       ''SELECT title, amount_retail_price FROM books ORDER BY amount_retail_price DESC LIMIT 5''),
      (''Books Published After 2010 with at Least 500 Pages'',
       ''SELECT title, page_count FROM books WHERE published_year > '2010' AND page_count >= 500''),
      (''Books with Discounts Greater than 20%'',
       ''SELECT title, amount_list_price, amount_retail_price FROM books WHERE (amount_list_price - amount_retail_price) / amount_list_price > 0.2''),
      (''Top 3 Authors with Most Books'',
       ''SELECT authors, COUNT(*) AS book_count FROM books GROUP BY authors ORDER BY book_count DESC LIMIT 3''),
      (''Books with More than 3 Authors'',
       ''SELECT title, authors FROM books WHERE LENGTH(authors) - LENGTH(REPLACE(authors, ',', '' @ [CHR 0x27, CHR 0x27] @ '')) + 1 > 3''),
      (''Books Published in the Last 5 Years'',
       ''SELECT title, published_year FROM books WHERE published_year >= strftime('%Y', 'now') - 5''),
      (''Top 3 Most Popular Books by Rating'',
       ''SELECT title, average_rating FROM books ORDER BY average_rating DESC LIMIT 3''),
      (''Top 5 Most Expensive eBooks'',
       ''SELECT title, amount_retail_price FROM books WHERE is_ebook = 1 ORDER BY amount_retail_price DESC LIMIT 5''),
      (''Top 5 Books by Ratings Count'',
       ''SELECT title, ratings_count FROM books ORDER BY ratings_count DESC LIMIT 5''),
      (''Books with Missing Descriptions'',
       ''SELECT title FROM books WHERE description = 'No description available.'' @ [CHR 0x27]),
      (''Books with Missing Images'',
       ''SELECT title FROM books WHERE image_link = '' @ [CHR 0x27, CHR 0x27]),
      (''Books with a Rating Below 3'',
       ''SELECT title FROM books WHERE average_rating < 3''),
      (''Books by Publisher with the Most Ratings'',
       ''SELECT publisher, SUM(ratings_count) FROM books GROUP BY publisher ORDER BY SUM(ratings_count) DESC LIMIT 1''),
      (''Books Over 1000 Pages'',
       ''SELECT title, page_count FROM books WHERE page_count > 1000''),
      (''Top 5 Books by Category'',
       ''SELECT categories, COUNT(*) FROM books GROUP BY categories ORDER BY COUNT(*) DESC LIMIT 5''),
      (''Top 3 Publishers with the Most eBooks'',
       ''SELECT publisher, COUNT(*) FROM books WHERE is_ebook = 1 GROUP BY publisher ORDER BY COUNT(*) DESC LIMIT 3''),
      (''Most Expensive Books by Publisher'',
       ''SELECT publisher, MAX(amount_retail_price) FROM books GROUP BY publisher ORDER BY MAX(amount_retail_price) DESC LIMIT 1'')]"

text \<open>The words of a string, separated by spaces.\<close>

fun split_on :: "char \<Rightarrow> string \<Rightarrow> string list" where
  "split_on c [] = [[]]"
| "split_on c (x # xs) =
     (if x = c then [] # split_on c xs
      else (case split_on c xs of [] \<Rightarrow> [[x]] | w # ws \<Rightarrow> (x # w) # ws))"

definition sql_words :: "string \<Rightarrow> string list" where
  "sql_words s = filter (\<lambda>w. w \<noteq> []) (split_on CHR '' '' s)"

definition is_decimal :: "char \<Rightarrow> bool" where
  "is_decimal c = (48 \<le> (of_char c :: nat) \<and> (of_char c :: nat) \<le> 57)"

definition parse_nat :: "string \<Rightarrow> nat option" where
  "parse_nat w =
     (if w \<noteq> [] \<and> list_all is_decimal w
      then Some (foldl (\<lambda>n c. 10 * n + (of_char c - 48)) 0 w) else None)"

text \<open>
  The number in the name of a query that starts with \<^verbatim>\<open>Top\<close>, and the number of the
  \<^verbatim>\<open>LIMIT\<close> clause that ends a query string.
\<close>

definition top_n :: "string \<Rightarrow> nat option" where
  "top_n name =
     (case sql_words name of
        t # n # rest \<Rightarrow> if t = ''Top'' then parse_nat n else None
      | _ \<Rightarrow> None)"

definition limit_of :: "string \<Rightarrow> nat option" where
  "limit_of q =
     (let ws = sql_words q
      in if 2 \<le> length ws \<and> ws ! (length ws - 2) = ''LIMIT'' then parse_nat (last ws) else None)"

text \<open>
  \<^verbatim>\<open>query_database\<close> hands the query string to SQLite and returns the rows it gives, as
  they come. The statements modelled are those of the form
  \<^verbatim>\<open>SELECT c, ..., c FROM t [ORDER BY c [ASC|DESC]] [LIMIT n]\<close> with plain column names,
  written as the catalog writes them; of any other statement the model says nothing
  (\<open>None\<close>).
\<close>

record select =
  sel_cols :: "string list"
  sel_from :: string
  sel_order :: "(string \<times> bool) option"
  sel_limit :: "nat option"

definition to_upper :: "char \<Rightarrow> char" where
  "to_upper c =
     (if 97 \<le> (of_char c :: nat) \<and> (of_char c :: nat) \<le> 122
      then char_of ((of_char c :: nat) - 32) else c)"

definition is_ident_char :: "char \<Rightarrow> bool" where
  "is_ident_char c =
     (let n = (of_char c :: nat)
      in (65 \<le> n \<and> n \<le> 90) \<or> (97 \<le> n \<and> n \<le> 122) \<or> (48 \<le> n \<and> n \<le> 57) \<or> n = 95)"

definition sql_keywords :: "string list" where
  "sql_keywords =
     [''SELECT'', ''FROM'', ''WHERE'', ''GROUP'', ''ORDER'', ''BY'', ''HAVING'', ''LIMIT'',
      ''OFFSET'', ''ASC'', ''DESC'', ''AS'', ''AND'', ''OR'', ''NOT'', ''NULL'', ''CASE'',
      ''WHEN'', ''THEN'', ''ELSE'', ''END'', ''DISTINCT'', ''ALL'', ''UNION'', ''JOIN'', ''ON'',
      ''IN'', ''IS'', ''LIKE'', ''BETWEEN'', ''EXISTS'', ''INSERT'', ''UPDATE'', ''DELETE'',
      ''CREATE'', ''DROP'', ''TABLE'', ''INTO'', ''VALUES'', ''SET'', ''INDEX'', ''PRIMARY'']"

definition is_name :: "string \<Rightarrow> bool" where
  "is_name w =
     (w \<noteq> [] \<and> list_all is_ident_char w \<and> \<not> is_decimal (hd w)
      \<and> \<not> List.member sql_keywords (map to_upper w))"

fun parse_cols :: "string list \<Rightarrow> (string list \<times> string list) option" where
  "parse_cols [] = None"
| "parse_cols (w # ws) =
     (if w \<noteq> [] \<and> last w = CHR '','' then
        (if is_name (butlast w)
         then (case parse_cols ws of None \<Rightarrow> None | Some (cs, rest) \<Rightarrow> Some (butlast w # cs, rest))
         else None)
      else if is_name w then
        (case ws of [] \<Rightarrow> None | f # rest \<Rightarrow> if f = ''FROM'' then Some ([w], rest) else None)
      else None)"

definition parse_order :: "string list \<Rightarrow> (string \<times> bool) option \<times> string list" where
  "parse_order ws =
     (case ws of
        w1 # w2 # c # rest \<Rightarrow>
          if w1 = ''ORDER'' \<and> w2 = ''BY'' \<and> is_name c then
            (case rest of
               [] \<Rightarrow> (Some (c, False), [])
             | d # rest' \<Rightarrow>
                 if d = ''DESC'' then (Some (c, True), rest')
                 else if d = ''ASC'' then (Some (c, False), rest')
                 else (Some (c, False), rest))
          else (None, ws)
      | _ \<Rightarrow> (None, ws))"

definition parse_limit :: "string list \<Rightarrow> nat option option" where
  "parse_limit ws =
     (case ws of
        [] \<Rightarrow> Some None
      | [l, n] \<Rightarrow> if l = ''LIMIT'' then map_option Some (parse_nat n) else None
      | _ \<Rightarrow> None)"

definition parse_select :: "string \<Rightarrow> select option" where
  "parse_select s =
     (case sql_words s of
        [] \<Rightarrow> None
      | w # ws \<Rightarrow>
          if w \<noteq> ''SELECT'' then None
          else (case parse_cols ws of
                  None \<Rightarrow> None
                | Some (cols, rest) \<Rightarrow>
                    (case rest of
                       [] \<Rightarrow> None
                     | t # rest1 \<Rightarrow>
                         if \<not> is_name t then None
                         else (case parse_order rest1 of
                                 (ord, rest2) \<Rightarrow>
                                   (case parse_limit rest2 of
                                      None \<Rightarrow> None
                                    | Some limit \<Rightarrow>
                                        Some \<lparr>sel_cols = cols, sel_from = t,
                                              sel_order = ord, sel_limit = limit\<rparr>)))))"

text \<open>
  The order of stored values: \<^verbatim>\<open>NULL\<close> first, then the numbers by value, then the texts
  character by character.
\<close>

fun str_le :: "string \<Rightarrow> string \<Rightarrow> bool" where
  "str_le [] t = True"
| "str_le (a # s) [] = False"
| "str_le (a # s) (b # t) =
     ((of_char a :: nat) < of_char b \<or> (a = b \<and> str_le s t))"

fun sql_le :: "sqlval \<Rightarrow> sqlval \<Rightarrow> bool" where
  "sql_le SNull v = True"
| "sql_le (SNum x) SNull = False"
| "sql_le (SNum x) (SNum y) = (x \<le> y)"
| "sql_le (SNum x) (SText t) = True"
| "sql_le (SText s) SNull = False"
| "sql_le (SText s) (SNum y) = False"
| "sql_le (SText s) (SText t) = str_le s t"

text \<open>
  \<^verbatim>\<open>ORDER BY c\<close>: \<open>before c desc r x\<close> says that \<open>r\<close> may stand before \<open>x\<close>. Rows are
  sorted by insertion; rows with the same value keep the order of the table.
\<close>

definition before :: "string \<Rightarrow> bool \<Rightarrow> sqlrow \<Rightarrow> sqlrow \<Rightarrow> bool" where
  "before c desc r x =
     (if desc then sql_le (cell x c) (cell r c) else sql_le (cell r c) (cell x c))"

fun insert_by :: "(sqlrow \<Rightarrow> sqlrow \<Rightarrow> bool) \<Rightarrow> sqlrow \<Rightarrow> sqlrow list \<Rightarrow> sqlrow list" where
  "insert_by le r [] = [r]"
| "insert_by le r (x # xs) = (if le r x then r # x # xs else x # insert_by le r xs)"

definition order_rows :: "(string \<times> bool) option \<Rightarrow> sqlrow list \<Rightarrow> sqlrow list" where
  "order_rows ord rows =
     (case ord of
        None \<Rightarrow> rows
      | Some (c, desc) \<Rightarrow> foldr (insert_by (before c desc)) rows [])"

definition limit_rows :: "nat option \<Rightarrow> sqlrow list \<Rightarrow> sqlrow list" where
  "limit_rows limit rows = (case limit of None \<Rightarrow> rows | Some n \<Rightarrow> take n rows)"

definition order_columns :: "(string \<times> bool) option \<Rightarrow> string list" where
  "order_columns ord = (case ord of None \<Rightarrow> [] | Some (c, desc) \<Rightarrow> [c])"

definition run_select :: "select \<Rightarrow> table \<Rightarrow> pyerr + sqlrow list" where
  "run_select q t =
     (if sel_from q \<noteq> ''books'' then Inl OperationalError
      else if \<not> list_all (\<lambda>c. List.member (map fst (tbl_columns t)) c)
                   (sel_cols q @ order_columns (sel_order q))
        then Inl OperationalError
      else Inr (map (\<lambda>r. map (\<lambda>c. (c, cell r c)) (sel_cols q))
                  (limit_rows (sel_limit q) (order_rows (sel_order q) (tbl_rows t)))))"

definition query_database :: "table \<Rightarrow> string \<Rightarrow> (pyerr + sqlrow list) option" where
  "query_database conn query = map_option (\<lambda>q. run_select q conn) (parse_select query)"

section \<open>Properties of the transformer\<close>

lemma bind_r_simps [simp]:
  "bind_r (Inl e) f = Inl e"
  "bind_r (Inr v) f = f v"
  by (simp_all add: bind_r_def)

lemma bind_r_Inr_iff: "bind_r m f = Inr r \<longleftrightarrow> (\<exists>v. m = Inr v \<and> f v = Inr r)"
  by (cases m) simp_all

text \<open>A book whose parts are dicts and whose lists can be joined gives this record.\<close>

lemma transform_book_ok:
  assumes "dict_get b ''volumeInfo'' (JDict []) = JDict v"
    and "dict_get b ''saleInfo'' (JDict []) = JDict s"
    and "dict_get s ''listPrice'' (JDict []) = JDict lp"
    and "dict_get s ''retailPrice'' (JDict []) = JDict rp"
    and "dict_get v ''imageLinks'' (JDict []) = JDict il"
    and "py_join '', '' (dict_get v ''authors'' (JList [JStr ''Unknown Author''])) = Inr a"
    and "py_join '', '' (dict_get v ''categories'' (JList [JStr ''N/A''])) = Inr c"
  shows "transform_book (JDict b) =
    Inr [(''book_id'', dict_get b ''id'' JNull),
         (''title'', dict_get v ''title'' (JStr ''N/A'')),
         (''subtitle'', dict_get v ''subtitle'' (JStr ''N/A'')),
         (''authors'', JStr (str_or a ''Unknown Author'')),
         (''description'', dict_get v ''description'' (JStr ''No description available.'')),
         (''categories'', JStr (str_or c ''N/A'')),
         (''page_count'', dict_get v ''pageCount'' (JInt 0)),
         (''language'', dict_get v ''language'' (JStr ''Unknown'')),
         (''image_link'', dict_get il ''thumbnail'' (JStr [])),
         (''average_rating'', dict_get v ''averageRating'' (JInt 0)),
         (''ratings_count'', dict_get v ''ratingsCount'' (JInt 0)),
         (''publisher'', dict_get v ''publisher'' (JStr ''Unknown Publisher'')),
         (''published_year'',
            JStr (published_year_of (dict_get v ''publishedDate'' (JStr ''Unknown'')))),
         (''is_ebook'', if truthy (dict_get s ''isEbook'' (JBool False)) then JInt 1 else JInt 0),
         (''saleability'', dict_get s ''saleability'' (JStr ''Not for Sale'')),
         (''amount_list_price'', dict_get lp ''amount'' (JInt 0)),
         (''currency_code_list_price'', dict_get lp ''currencyCode'' (JStr [])),
         (''amount_retail_price'', dict_get rp ''amount'' (JInt 0)),
         (''currency_code_retail_price'', dict_get rp ''currencyCode'' (JStr [])),
         (''buy_link'', dict_get s ''buyLink'' (JStr [])),
         (''country'', dict_get s ''country'' (JStr ''N/A''))]"
  unfolding transform_book_def Let_def
  by (simp only: py_get.simps bind_r_simps assms)

text \<open>Conversely, a book that gives a record has such parts, and the record is that one.\<close>

lemma transform_book_parts:
  assumes ok: "transform_book book = Inr r"
  shows "\<exists>b v s lp rp il a c.
       book = JDict b \<and>
       dict_get b ''volumeInfo'' (JDict []) = JDict v \<and>
       dict_get b ''saleInfo'' (JDict []) = JDict s \<and>
       dict_get s ''listPrice'' (JDict []) = JDict lp \<and>
       dict_get s ''retailPrice'' (JDict []) = JDict rp \<and>
       dict_get v ''imageLinks'' (JDict []) = JDict il \<and>
       py_join '', '' (dict_get v ''authors'' (JList [JStr ''Unknown Author''])) = Inr a \<and>
       py_join '', '' (dict_get v ''categories'' (JList [JStr ''N/A''])) = Inr c \<and>
       r = [(''book_id'', dict_get b ''id'' JNull),
         (''title'', dict_get v ''title'' (JStr ''N/A'')),
         (''subtitle'', dict_get v ''subtitle'' (JStr ''N/A'')),
         (''authors'', JStr (str_or a ''Unknown Author'')),
         (''description'', dict_get v ''description'' (JStr ''No description available.'')),
         (''categories'', JStr (str_or c ''N/A'')),
         (''page_count'', dict_get v ''pageCount'' (JInt 0)),
         (''language'', dict_get v ''language'' (JStr ''Unknown'')),
         (''image_link'', dict_get il ''thumbnail'' (JStr [])),
         (''average_rating'', dict_get v ''averageRating'' (JInt 0)),
         (''ratings_count'', dict_get v ''ratingsCount'' (JInt 0)),
         (''publisher'', dict_get v ''publisher'' (JStr ''Unknown Publisher'')),
         (''published_year'',
            JStr (published_year_of (dict_get v ''publishedDate'' (JStr ''Unknown'')))),
         (''is_ebook'', if truthy (dict_get s ''isEbook'' (JBool False)) then JInt 1 else JInt 0),
         (''saleability'', dict_get s ''saleability'' (JStr ''Not for Sale'')),
         (''amount_list_price'', dict_get lp ''amount'' (JInt 0)),
         (''currency_code_list_price'', dict_get lp ''currencyCode'' (JStr [])),
         (''amount_retail_price'', dict_get rp ''amount'' (JInt 0)),
         (''currency_code_retail_price'', dict_get rp ''currencyCode'' (JStr [])),
         (''buy_link'', dict_get s ''buyLink'' (JStr [])),
         (''country'', dict_get s ''country'' (JStr ''N/A''))]"
proof -
  obtain b where b: "book = JDict b"
    using ok by (cases book) (simp_all add: transform_book_def)
  obtain s where s: "dict_get b ''saleInfo'' (JDict []) = JDict s"
    using ok unfolding b transform_book_def
    by (cases "dict_get b ''saleInfo'' (JDict [])") simp_all
  obtain v where v: "dict_get b ''volumeInfo'' (JDict []) = JDict v"
    using ok unfolding b transform_book_def
    by (cases "dict_get b ''volumeInfo'' (JDict [])") (simp_all add: s)
  obtain a where a: "py_join '', '' (dict_get v ''authors'' (JList [JStr ''Unknown Author''])) = Inr a"
    using ok unfolding b transform_book_def Let_def
    by (cases "py_join '', '' (dict_get v ''authors'' (JList [JStr ''Unknown Author'']))")
       (simp_all add: s v)
  obtain c where c: "py_join '', '' (dict_get v ''categories'' (JList [JStr ''N/A''])) = Inr c"
    using ok unfolding b transform_book_def Let_def
    by (cases "py_join '', '' (dict_get v ''categories'' (JList [JStr ''N/A'']))")
       (simp_all add: s v a)
  obtain il where il: "dict_get v ''imageLinks'' (JDict []) = JDict il"
    using ok unfolding b transform_book_def Let_def
    by (cases "dict_get v ''imageLinks'' (JDict [])") (simp_all add: s v a c)
  obtain lp where lp: "dict_get s ''listPrice'' (JDict []) = JDict lp"
    using ok unfolding b transform_book_def Let_def
    by (cases "dict_get s ''listPrice'' (JDict [])") (simp_all add: s v a c il)
  obtain rp where rp: "dict_get s ''retailPrice'' (JDict []) = JDict rp"
    using ok unfolding b transform_book_def Let_def
    by (cases "dict_get s ''retailPrice'' (JDict [])") (simp_all add: s v a c il lp)
  have "transform_book book = Inr [(''book_id'', dict_get b ''id'' JNull),
             (''title'', dict_get v ''title'' (JStr ''N/A'')),
             (''subtitle'', dict_get v ''subtitle'' (JStr ''N/A'')),
             (''authors'', JStr (str_or a ''Unknown Author'')),
             (''description'', dict_get v ''description'' (JStr ''No description available.'')),
             (''categories'', JStr (str_or c ''N/A'')),
             (''page_count'', dict_get v ''pageCount'' (JInt 0)),
             (''language'', dict_get v ''language'' (JStr ''Unknown'')),
             (''image_link'', dict_get il ''thumbnail'' (JStr [])),
             (''average_rating'', dict_get v ''averageRating'' (JInt 0)),
             (''ratings_count'', dict_get v ''ratingsCount'' (JInt 0)),
             (''publisher'', dict_get v ''publisher'' (JStr ''Unknown Publisher'')),
             (''published_year'',
                JStr (published_year_of (dict_get v ''publishedDate'' (JStr ''Unknown'')))),
             (''is_ebook'', if truthy (dict_get s ''isEbook'' (JBool False)) then JInt 1 else JInt 0),
             (''saleability'', dict_get s ''saleability'' (JStr ''Not for Sale'')),
             (''amount_list_price'', dict_get lp ''amount'' (JInt 0)),
             (''currency_code_list_price'', dict_get lp ''currencyCode'' (JStr [])),
             (''amount_retail_price'', dict_get rp ''amount'' (JInt 0)),
             (''currency_code_retail_price'', dict_get rp ''currencyCode'' (JStr [])),
             (''buy_link'', dict_get s ''buyLink'' (JStr [])),
             (''country'', dict_get s ''country'' (JStr ''N/A''))]"
    unfolding b by (rule transform_book_ok [OF v s lp rp il a c])
  with ok have "r = [(''book_id'', dict_get b ''id'' JNull),
             (''title'', dict_get v ''title'' (JStr ''N/A'')),
             (''subtitle'', dict_get v ''subtitle'' (JStr ''N/A'')),
             (''authors'', JStr (str_or a ''Unknown Author'')),
             (''description'', dict_get v ''description'' (JStr ''No description available.'')),
             (''categories'', JStr (str_or c ''N/A'')),
             (''page_count'', dict_get v ''pageCount'' (JInt 0)),
             (''language'', dict_get v ''language'' (JStr ''Unknown'')),
             (''image_link'', dict_get il ''thumbnail'' (JStr [])),
             (''average_rating'', dict_get v ''averageRating'' (JInt 0)),
             (''ratings_count'', dict_get v ''ratingsCount'' (JInt 0)),
             (''publisher'', dict_get v ''publisher'' (JStr ''Unknown Publisher'')),
             (''published_year'',
                JStr (published_year_of (dict_get v ''publishedDate'' (JStr ''Unknown'')))),
             (''is_ebook'', if truthy (dict_get s ''isEbook'' (JBool False)) then JInt 1 else JInt 0),
             (''saleability'', dict_get s ''saleability'' (JStr ''Not for Sale'')),
             (''amount_list_price'', dict_get lp ''amount'' (JInt 0)),
             (''currency_code_list_price'', dict_get lp ''currencyCode'' (JStr [])),
             (''amount_retail_price'', dict_get rp ''amount'' (JInt 0)),
             (''currency_code_retail_price'', dict_get rp ''currencyCode'' (JStr [])),
             (''buy_link'', dict_get s ''buyLink'' (JStr [])),
             (''country'', dict_get s ''country'' (JStr ''N/A''))]"
    by simp
  with b v s lp rp il a c show ?thesis by blast
qed



lemma dict_get_empty [simp]: "dict_get [] k d = d"
  by (simp add: dict_get_def)

text \<open>Looking a path up through parts that \<^verbatim>\<open>get\<close> found to be dicts.\<close>

lemma lookup_path_step:
  assumes "dict_get b k (JDict []) = JDict v"
  shows "lookup_path (JDict b) (k # p # ps) = lookup_path (JDict v) (p # ps)"
proof (cases "map_of b k")
  case None
  with assms have "v = []" by (simp add: dict_get_def)
  with None show ?thesis by simp
next
  case (Some x)
  with assms have "x = JDict v" by (simp add: dict_get_def)
  with Some show ?thesis by simp
qed

lemma lookup_path_last: "lookup_path (JDict b) [k] = map_of b k"
  by (cases "map_of b k") simp_all

lemma lookup_path_get:
  "lookup_path (JDict b) [k] = None \<Longrightarrow> dict_get b k d = d"
  "lookup_path (JDict b) [k] = Some x \<Longrightarrow> dict_get b k d = x"
  by (simp_all only: lookup_path_last) (simp_all add: dict_get_def)

text \<open>The loop of \<^verbatim>\<open>transform_data\<close>, one book at a time.\<close>

lemma transform_loop_acc:
  "transform_loop books data =
     (case transform_loop books [] of Inl e \<Rightarrow> Inl e | Inr rs \<Rightarrow> Inr (data @ rs))"
proof (induction books arbitrary: data)
  case Nil
  show ?case by simp
next
  case (Cons book books)
  show ?case
  proof (cases "transform_book book")
    case (Inl e)
    then show ?thesis by simp
  next
    case (Inr r)
    show ?thesis
    proof (cases "transform_loop books []")
      case rest: (Inl e)
      with Inr Cons.IH [of "data @ [r]"] Cons.IH [of "[r]"] show ?thesis by simp
    next
      case rest: (Inr rs)
      with Inr Cons.IH [of "data @ [r]"] Cons.IH [of "[r]"] show ?thesis by simp
    qed
  qed
qed

lemma transform_data_Nil [simp]: "transform_data [] = Inr []"
  by (simp add: transform_data_def)

lemma transform_data_Cons:
  "transform_data (book # books) =
     bind_r (transform_book book) (\<lambda>r. bind_r (transform_data books) (\<lambda>rs. Inr (r # rs)))"
proof (cases "transform_book book")
  case (Inl e)
  then show ?thesis by (simp add: transform_data_def)
next
  case (Inr r)
  show ?thesis
  proof (cases "transform_loop books []")
    case rest: (Inl e)
    with Inr transform_loop_acc [of books "[r]"] show ?thesis
      by (simp add: transform_data_def)
  next
    case rest: (Inr rs)
    with Inr transform_loop_acc [of books "[r]"] show ?thesis
      by (simp add: transform_data_def)
  qed
qed

lemma transform_data_Inr_iff:
  "transform_data books = Inr rows \<longleftrightarrow> list_all2 (\<lambda>b r. transform_book b = Inr r) books rows"
proof (induction books arbitrary: rows)
  case Nil
  show ?case by auto
next
  case (Cons book books)
  show ?case
    by (cases rows) (auto simp: transform_data_Cons bind_r_Inr_iff Cons.IH)
qed


text \<open>The books that give a record are the well-formed ones.\<close>

lemma py_join_Inr_iff: "(\<exists>a. py_join sep v = Inr a) \<longleftrightarrow> joinable v"
  by (cases v) (auto split: option.splits)

lemma present_ok_last:
  "present_ok P (JDict b) [k] \<longleftrightarrow> (case map_of b k of None \<Rightarrow> True | Some x \<Rightarrow> P x)"
  by (simp only: present_ok_def lookup_path_last)

lemma present_ok_step:
  "dict_get b k (JDict []) = JDict v \<Longrightarrow>
     present_ok P (JDict b) (k # p # ps) = present_ok P (JDict v) (p # ps)"
  by (simp only: present_ok_def lookup_path_step)

lemma get_dict_iff:
  "(\<exists>v. dict_get b k (JDict []) = JDict v) \<longleftrightarrow> present_ok is_dict (JDict b) [k]"
proof (cases "map_of b k")
  case None
  then show ?thesis by (simp add: present_ok_last dict_get_def)
next
  case (Some x)
  then show ?thesis by (cases x) (simp_all add: present_ok_last dict_get_def)
qed

lemma get_joinable_iff:
  "joinable (dict_get v k (JList [JStr d])) \<longleftrightarrow> present_ok joinable (JDict v) [k]"
  by (cases "map_of v k") (simp_all add: present_ok_last dict_get_def)

lemma well_formed_item_gives_record:
  assumes "well_formed_item book"
  shows "\<exists>r. transform_book book = Inr r"
proof -
  from assms obtain b where b: "book = JDict b"
    by (cases book) (simp_all add: well_formed_item_def)
  note wf = assms [unfolded b well_formed_item_def]
  from wf obtain v where v: "dict_get b ''volumeInfo'' (JDict []) = JDict v"
    using get_dict_iff by blast
  from wf obtain s where s: "dict_get b ''saleInfo'' (JDict []) = JDict s"
    using get_dict_iff by blast
  from wf have "present_ok is_dict (JDict s) [''listPrice'']"
    by (simp only: present_ok_step [OF s])
  then obtain lp where lp: "dict_get s ''listPrice'' (JDict []) = JDict lp"
    using get_dict_iff by blast
  from wf have "present_ok is_dict (JDict s) [''retailPrice'']"
    by (simp only: present_ok_step [OF s])
  then obtain rp where rp: "dict_get s ''retailPrice'' (JDict []) = JDict rp"
    using get_dict_iff by blast
  from wf have "present_ok is_dict (JDict v) [''imageLinks'']"
    by (simp only: present_ok_step [OF v])
  then obtain il where il: "dict_get v ''imageLinks'' (JDict []) = JDict il"
    using get_dict_iff by blast
  from wf have "present_ok joinable (JDict v) [''authors'']"
    by (simp only: present_ok_step [OF v])
  then obtain a where a: "py_join '', '' (dict_get v ''authors'' (JList [JStr ''Unknown Author''])) = Inr a"
    using get_joinable_iff py_join_Inr_iff by blast
  from wf have "present_ok joinable (JDict v) [''categories'']"
    by (simp only: present_ok_step [OF v])
  then obtain c where c: "py_join '', '' (dict_get v ''categories'' (JList [JStr ''N/A''])) = Inr c"
    using get_joinable_iff py_join_Inr_iff by blast
  show ?thesis
    unfolding b using transform_book_ok [OF v s lp rp il a c] by blast
qed

lemma record_gives_well_formed_item:
  assumes "transform_book book = Inr r"
  shows "well_formed_item book"
proof -
  from transform_book_parts [OF assms] obtain b v s lp rp il a c where
    b: "book = JDict b"
    and v: "dict_get b ''volumeInfo'' (JDict []) = JDict v"
    and s: "dict_get b ''saleInfo'' (JDict []) = JDict s"
    and lp: "dict_get s ''listPrice'' (JDict []) = JDict lp"
    and rp: "dict_get s ''retailPrice'' (JDict []) = JDict rp"
    and il: "dict_get v ''imageLinks'' (JDict []) = JDict il"
    and a: "py_join '', '' (dict_get v ''authors'' (JList [JStr ''Unknown Author''])) = Inr a"
    and c: "py_join '', '' (dict_get v ''categories'' (JList [JStr ''N/A''])) = Inr c"
    by blast
  have 1: "present_ok is_dict (JDict b) [''volumeInfo'']"
    using v get_dict_iff by blast
  have 2: "present_ok is_dict (JDict b) [''saleInfo'']"
    using s get_dict_iff by blast
  have 3: "present_ok is_dict (JDict b) [''saleInfo'', ''listPrice'']"
    unfolding present_ok_step [OF s] using lp get_dict_iff by blast
  have 4: "present_ok is_dict (JDict b) [''saleInfo'', ''retailPrice'']"
    unfolding present_ok_step [OF s] using rp get_dict_iff by blast
  have 5: "present_ok is_dict (JDict b) [''volumeInfo'', ''imageLinks'']"
    unfolding present_ok_step [OF v] using il get_dict_iff by blast
  have 6: "present_ok joinable (JDict b) [''volumeInfo'', ''authors'']"
    unfolding present_ok_step [OF v] using a get_joinable_iff py_join_Inr_iff by blast
  have 7: "present_ok joinable (JDict b) [''volumeInfo'', ''categories'']"
    unfolding present_ok_step [OF v] using c get_joinable_iff py_join_Inr_iff by blast
  show ?thesis
    unfolding b well_formed_item_def using 1 2 3 4 5 6 7 by simp
qed

lemma transform_data_total:
  "list_all well_formed_item books \<Longrightarrow> \<exists>rows. transform_data books = Inr rows"
proof (induction books)
  case Nil
  show ?case by simp
next
  case (Cons book books)
  from Cons.prems obtain r where r: "transform_book book = Inr r"
    using well_formed_item_gives_record by auto
  from Cons obtain rs where rs: "transform_data books = Inr rs"
    by auto
  show ?case
    by (simp add: transform_data_Cons r rs)
qed

lemma transform_data_nth:
  assumes "transform_data books = Inr rows"
  shows "length rows = length books"
    and "i < length books \<Longrightarrow> transform_book (books ! i) = Inr (rows ! i)"
proof -
  from assms have all2: "list_all2 (\<lambda>b r. transform_book b = Inr r) books rows"
    by (simp only: transform_data_Inr_iff)
  then show "length rows = length books"
    by (simp add: list_all2_lengthD)
  show "i < length books \<Longrightarrow> transform_book (books ! i) = Inr (rows ! i)"
    using all2 by (rule list_all2_nthD)
qed

lemma record_columns:
  assumes "transform_book book = Inr r"
  shows "map fst r = book_columns"
  using transform_book_parts [OF assms] unfolding book_columns_def by auto

lemma published_year_of_Unknown: "published_year_of (JStr ''Unknown'') = ''Unknown''"
  by (simp add: published_year_of_def isdigit_def isdigit_char_def)

lemma py_join_single [simp]: "py_join sep (JList [JStr d]) = Inr d"
  by simp

text \<open>A field whose place in the book is empty holds its default.\<close>

lemma record_defaults:
  assumes ok: "transform_book book = Inr r"
  shows "list_all (\<lambda>(c, path, d). lookup_path book path = None \<longrightarrow> map_of r c = Some d)
           field_defaults"
proof -
  from transform_book_parts [OF ok] obtain b v s lp rp il a c where
    b: "book = JDict b"
    and v: "dict_get b ''volumeInfo'' (JDict []) = JDict v"
    and s: "dict_get b ''saleInfo'' (JDict []) = JDict s"
    and lp: "dict_get s ''listPrice'' (JDict []) = JDict lp"
    and rp: "dict_get s ''retailPrice'' (JDict []) = JDict rp"
    and il: "dict_get v ''imageLinks'' (JDict []) = JDict il"
    and a: "py_join '', '' (dict_get v ''authors'' (JList [JStr ''Unknown Author''])) = Inr a"
    and c: "py_join '', '' (dict_get v ''categories'' (JList [JStr ''N/A''])) = Inr c"
    and r: "map_of r ''title'' = Some (dict_get v ''title'' (JStr ''N/A''))"
      "map_of r ''subtitle'' = Some (dict_get v ''subtitle'' (JStr ''N/A''))"
      "map_of r ''authors'' = Some (JStr (str_or a ''Unknown Author''))"
      "map_of r ''description'' = Some (dict_get v ''description'' (JStr ''No description available.''))"
      "map_of r ''categories'' = Some (JStr (str_or c ''N/A''))"
      "map_of r ''page_count'' = Some (dict_get v ''pageCount'' (JInt 0))"
      "map_of r ''language'' = Some (dict_get v ''language'' (JStr ''Unknown''))"
      "map_of r ''image_link'' = Some (dict_get il ''thumbnail'' (JStr []))"
      "map_of r ''average_rating'' = Some (dict_get v ''averageRating'' (JInt 0))"
      "map_of r ''ratings_count'' = Some (dict_get v ''ratingsCount'' (JInt 0))"
      "map_of r ''publisher'' = Some (dict_get v ''publisher'' (JStr ''Unknown Publisher''))"
      "map_of r ''published_year'' =
         Some (JStr (published_year_of (dict_get v ''publishedDate'' (JStr ''Unknown''))))"
      "map_of r ''is_ebook'' =
         Some (if truthy (dict_get s ''isEbook'' (JBool False)) then JInt 1 else JInt 0)"
      "map_of r ''saleability'' = Some (dict_get s ''saleability'' (JStr ''Not for Sale''))"
      "map_of r ''amount_list_price'' = Some (dict_get lp ''amount'' (JInt 0))"
      "map_of r ''currency_code_list_price'' = Some (dict_get lp ''currencyCode'' (JStr []))"
      "map_of r ''amount_retail_price'' = Some (dict_get rp ''amount'' (JInt 0))"
      "map_of r ''currency_code_retail_price'' = Some (dict_get rp ''currencyCode'' (JStr []))"
      "map_of r ''buy_link'' = Some (dict_get s ''buyLink'' (JStr []))"
      "map_of r ''country'' = Some (dict_get s ''country'' (JStr ''N/A''))"
    by auto
  have vi: "dict_get v k d = d" if "lookup_path book [''volumeInfo'', k] = None" for k d
    using that unfolding b lookup_path_step [OF v] by (rule lookup_path_get)
  have si: "dict_get s k d = d" if "lookup_path book [''saleInfo'', k] = None" for k d
    using that unfolding b lookup_path_step [OF s] by (rule lookup_path_get)
  have ili: "dict_get il k d = d" if "lookup_path book [''volumeInfo'', ''imageLinks'', k] = None" for k d
    using that unfolding b lookup_path_step [OF v] lookup_path_step [OF il]
    by (rule lookup_path_get)
  have lpi: "dict_get lp k d = d" if "lookup_path book [''saleInfo'', ''listPrice'', k] = None" for k d
    using that unfolding b lookup_path_step [OF s] lookup_path_step [OF lp]
    by (rule lookup_path_get)
  have rpi: "dict_get rp k d = d" if "lookup_path book [''saleInfo'', ''retailPrice'', k] = None" for k d
    using that unfolding b lookup_path_step [OF s] lookup_path_step [OF rp]
    by (rule lookup_path_get)
  have au: "str_or a ''Unknown Author'' = ''Unknown Author''"
    if "lookup_path book [''volumeInfo'', ''authors''] = None"
    using a unfolding vi [OF that] by (simp add: str_or_def)
  have ca: "str_or c ''N/A'' = ''N/A''"
    if "lookup_path book [''volumeInfo'', ''categories''] = None"
    using c unfolding vi [OF that] by (simp add: str_or_def)
  show ?thesis
    unfolding field_defaults_def list.pred_inject(2) prod.case
    by (intro conjI impI list.pred_inject(1))
       (simp_all only: r vi si ili lpi rpi au ca published_year_of_Unknown truthy.simps if_False)
qed

text \<open>
  C1, as the code has it. The loop body reads the parts of a book with \<^verbatim>\<open>get\<close> and
  joins the authors and categories unguarded, so a book with a part of another type raises.
  On every sequence of well-formed books \<^verbatim>\<open>transform_data\<close> raises nothing and returns one
  record for each book, in which every column of the table is set and every field whose
  place in the book is empty holds the default of the data model.
\<close>

theorem transform_data_total_on_well_formed:
  assumes "list_all well_formed_item books"
  shows "\<exists>rows. transform_data books = Inr rows \<and> length rows = length books \<and>
    (\<forall>i < length books.
       map fst (rows ! i) = book_columns \<and>
       list_all (\<lambda>(c, path, d). lookup_path (books ! i) path = None \<longrightarrow> map_of (rows ! i) c = Some d)
         field_defaults)"
proof -
  from transform_data_total [OF assms] obtain rows where rows: "transform_data books = Inr rows"
    by blast
  have "map fst (rows ! i) = book_columns \<and>
       list_all (\<lambda>(c, path, d). lookup_path (books ! i) path = None \<longrightarrow> map_of (rows ! i) c = Some d)
         field_defaults" if "i < length books" for i
    using transform_data_nth(2) [OF rows that] record_columns record_defaults by blast
  with rows transform_data_nth(1) [OF rows] show ?thesis by blast
qed

theorem transform_data_total_on_well_formed_witness:
  "list_all well_formed_item
     [JDict [], JDict [(''id'', JStr ''b1''), (''volumeInfo'', JDict [(''title'', JStr ''T'')])]]
   \<and> (\<exists>rows. transform_data
         [JDict [], JDict [(''id'', JStr ''b1''), (''volumeInfo'', JDict [(''title'', JStr ''T'')])]]
           = Inr rows \<and> length rows = 2)"
proof -
  have wf: "list_all well_formed_item
     [JDict [], JDict [(''id'', JStr ''b1''), (''volumeInfo'', JDict [(''title'', JStr ''T'')])]]"
    by (simp add: well_formed_item_def present_ok_def)
  from transform_data_total_on_well_formed [OF wf] wf show ?thesis
    by auto
qed

text \<open>
  C1, as the claim states it, fails: a book whose \<^verbatim>\<open>volumeInfo\<close> is \<^verbatim>\<open>null\<close> makes
  \<^verbatim>\<open>transform_data\<close> raise \<^verbatim>\<open>AttributeError\<close>.
\<close>

theorem transform_data_total_counterexample:
  "transform_data [JDict [(''volumeInfo'', JNull)]] = Inl AttributeError"
  by (simp add: transform_data_def transform_book_def dict_get_def)






text \<open>
  C3. In every record that \<^verbatim>\<open>transform_data\<close> builds from a book whose authors (categories)
  are present and an empty list, the field is the default \<^verbatim>\<open>Unknown Author\<close>
  (\<^verbatim>\<open>N/A\<close>); and in no record is either field the empty string.
\<close>

theorem empty_authors_categories_default:
  assumes ok: "transform_book book = Inr r"
  shows "(lookup_path book [''volumeInfo'', ''authors''] = Some (JList []) \<longrightarrow>
            map_of r ''authors'' = Some (JStr ''Unknown Author''))
    \<and> (lookup_path book [''volumeInfo'', ''categories''] = Some (JList []) \<longrightarrow>
            map_of r ''categories'' = Some (JStr ''N/A''))
    \<and> map_of r ''authors'' \<noteq> Some (JStr [])
    \<and> map_of r ''categories'' \<noteq> Some (JStr [])"
proof -
  from transform_book_parts [OF ok] obtain b v a c where
    b: "book = JDict b"
    and v: "dict_get b ''volumeInfo'' (JDict []) = JDict v"
    and a: "py_join '', '' (dict_get v ''authors'' (JList [JStr ''Unknown Author''])) = Inr a"
    and c: "py_join '', '' (dict_get v ''categories'' (JList [JStr ''N/A''])) = Inr c"
    and r: "map_of r ''authors'' = Some (JStr (str_or a ''Unknown Author''))"
      "map_of r ''categories'' = Some (JStr (str_or c ''N/A''))"
    by auto
  have au: "map_of r ''authors'' = Some (JStr ''Unknown Author'')"
    if "lookup_path book [''volumeInfo'', ''authors''] = Some (JList [])"
  proof -
    from that have "dict_get v ''authors'' (JList [JStr ''Unknown Author'']) = JList []"
      unfolding b lookup_path_step [OF v] by (rule lookup_path_get)
    with a have "a = []" by simp
    then show ?thesis by (simp add: r str_or_def)
  qed
  have ca: "map_of r ''categories'' = Some (JStr ''N/A'')"
    if "lookup_path book [''volumeInfo'', ''categories''] = Some (JList [])"
  proof -
    from that have "dict_get v ''categories'' (JList [JStr ''N/A'']) = JList []"
      unfolding b lookup_path_step [OF v] by (rule lookup_path_get)
    with c have "c = []" by simp
    then show ?thesis by (simp add: r str_or_def)
  qed
  have ne: "map_of r ''authors'' \<noteq> Some (JStr [])" "map_of r ''categories'' \<noteq> Some (JStr [])"
    by (simp_all add: r str_or_def)
  from au ca ne show ?thesis by blast
qed

theorem empty_authors_categories_default_witness:
  "\<exists>r. transform_book
          (JDict [(''volumeInfo'', JDict [(''authors'', JList []), (''categories'', JList [])])])
         = Inr r
       \<and> map_of r ''authors'' = Some (JStr ''Unknown Author'')
       \<and> map_of r ''categories'' = Some (JStr ''N/A'')"
proof -
  have "well_formed_item
      (JDict [(''volumeInfo'', JDict [(''authors'', JList []), (''categories'', JList [])])])"
    by (simp add: well_formed_item_def present_ok_def)
  then obtain r where r:
    "transform_book
       (JDict [(''volumeInfo'', JDict [(''authors'', JList []), (''categories'', JList [])])])
       = Inr r"
    using well_formed_item_gives_record by blast
  from empty_authors_categories_default [OF r]
  have "map_of r ''authors'' = Some (JStr ''Unknown Author'')
      \<and> map_of r ''categories'' = Some (JStr ''N/A'')"
    by simp
  with r show ?thesis by blast
qed



text \<open>
  C10. A record built from a book without \<^verbatim>\<open>id\<close> has \<^verbatim>\<open>None\<close> as its \<^verbatim>\<open>book_id\<close>.
  Every other column has a default and \<^verbatim>\<open>book_id\<close> has none: the book with no field at
  all gives \<^verbatim>\<open>None\<close> there and the defaults elsewhere. \<^verbatim>\<open>book_id\<close> is the primary key of
  the table that \<^verbatim>\<open>initialize_database\<close> creates.
\<close>

theorem book_id_has_no_default:
  "(transform_book book = Inr r \<and> lookup_path book [''id''] = None \<longrightarrow>
      map_of r ''book_id'' = Some JNull)
   \<and> book_columns = ''book_id'' # map fst field_defaults
   \<and> ''book_id'' \<notin> set (map fst field_defaults)
   \<and> transform_book (JDict []) =
       Inr ((''book_id'', JNull) # map (\<lambda>(c, path, d). (c, d)) field_defaults)
   \<and> map_option tbl_pk (initialize_database None) = Some ''book_id''"
proof -
  have 1: "map_of r ''book_id'' = Some JNull"
    if "transform_book book = Inr r \<and> lookup_path book [''id''] = None"
  proof -
    from that transform_book_parts [of book r] obtain b where
      b: "book = JDict b" and r: "map_of r ''book_id'' = Some (dict_get b ''id'' JNull)"
      by auto
    from that have "dict_get b ''id'' JNull = JNull"
      unfolding b by (intro lookup_path_get) simp
    with r show ?thesis by simp
  qed
  have 2: "book_columns = ''book_id'' # map fst field_defaults"
    by (simp add: book_columns_def field_defaults_def)
  have 3: "''book_id'' \<notin> set (map fst field_defaults)"
    by (simp add: field_defaults_def)
  have "transform_book (JDict []) =
       Inr [(''book_id'', dict_get [] ''id'' JNull),
         (''title'', dict_get [] ''title'' (JStr ''N/A'')),
         (''subtitle'', dict_get [] ''subtitle'' (JStr ''N/A'')),
         (''authors'', JStr (str_or ''Unknown Author'' ''Unknown Author'')),
         (''description'', dict_get [] ''description'' (JStr ''No description available.'')),
         (''categories'', JStr (str_or ''N/A'' ''N/A'')),
         (''page_count'', dict_get [] ''pageCount'' (JInt 0)),
         (''language'', dict_get [] ''language'' (JStr ''Unknown'')),
         (''image_link'', dict_get [] ''thumbnail'' (JStr [])),
         (''average_rating'', dict_get [] ''averageRating'' (JInt 0)),
         (''ratings_count'', dict_get [] ''ratingsCount'' (JInt 0)),
         (''publisher'', dict_get [] ''publisher'' (JStr ''Unknown Publisher'')),
         (''published_year'',
            JStr (published_year_of (dict_get [] ''publishedDate'' (JStr ''Unknown'')))),
         (''is_ebook'', if truthy (dict_get [] ''isEbook'' (JBool False)) then JInt 1 else JInt 0),
         (''saleability'', dict_get [] ''saleability'' (JStr ''Not for Sale'')),
         (''amount_list_price'', dict_get [] ''amount'' (JInt 0)),
         (''currency_code_list_price'', dict_get [] ''currencyCode'' (JStr [])),
         (''amount_retail_price'', dict_get [] ''amount'' (JInt 0)),
         (''currency_code_retail_price'', dict_get [] ''currencyCode'' (JStr [])),
         (''buy_link'', dict_get [] ''buyLink'' (JStr [])),
         (''country'', dict_get [] ''country'' (JStr ''N/A''))]"
    by (rule transform_book_ok) simp_all
  then have 4: "transform_book (JDict []) =
       Inr ((''book_id'', JNull) # map (\<lambda>(c, path, d). (c, d)) field_defaults)"
    by (simp add: field_defaults_def published_year_of_Unknown str_or_def)
  have 5: "map_option tbl_pk (initialize_database None) = Some ''book_id''"
    by (simp add: initialize_database_def new_books_table_def)
  from 1 2 3 4 5 show ?thesis by blast
qed

theorem book_id_has_no_default_witness:
  "\<exists>r. transform_book (JDict [(''volumeInfo'', JDict [(''title'', JStr ''T'')])]) = Inr r
       \<and> lookup_path (JDict [(''volumeInfo'', JDict [(''title'', JStr ''T'')])]) [''id''] = None
       \<and> map_of r ''book_id'' = Some JNull"
proof -
  have "well_formed_item (JDict [(''volumeInfo'', JDict [(''title'', JStr ''T'')])])"
    by (simp add: well_formed_item_def present_ok_def)
  then obtain r where r:
    "transform_book (JDict [(''volumeInfo'', JDict [(''title'', JStr ''T'')])]) = Inr r"
    using well_formed_item_gives_record by blast
  have absent: "lookup_path (JDict [(''volumeInfo'', JDict [(''title'', JStr ''T'')])]) [''id''] = None"
    by simp
  from book_id_has_no_default
    [of "JDict [(''volumeInfo'', JDict [(''title'', JStr ''T'')])]" r] r absent
  have "map_of r ''book_id'' = Some JNull" by blast
  with r absent show ?thesis by blast
qed

section \<open>Properties of the fetcher\<close>

lemma range_retries: "[0..<retries] = [0, 1, 2]"
  by (simp add: retries_def numeral_3_eq_3 upt_rec)

lemma attempts_simps [simp]:
  "attempts [] = 0"
  "attempts (Get q m # es) = Suc (attempts es)"
  "attempts (Warning w # es) = attempts es"
  "attempts (Error w # es) = attempts es"
  "attempts (Sleep d # es) = attempts es"
  by (simp_all add: attempts_def)

text \<open>One turn of the loop, by the reply of the attempt.\<close>

lemma fetch_loop_failed:
  "net i = ConnectionFailed \<Longrightarrow>
     fetch_loop net q m (i # rest) = (Inl ConnectionError, [Get q m])"
  by simp

lemma fetch_loop_200:
  "net i = Reply 200 body \<Longrightarrow>
     fetch_loop net q m (i # rest) = (response_items body, [Get q m])"
  by simp

lemma fetch_loop_403:
  "net i = Reply 403 body \<Longrightarrow>
     fetch_loop net q m (i # rest) =
       (fst (fetch_loop net q m rest),
        [Get q m, Warning ''API request limit reached. Retrying in 10 seconds...'', Sleep 10]
          @ snd (fetch_loop net q m rest))"
  by (simp add: case_prod_unfold Let_def)

lemma fetch_loop_other:
  "net i = Reply st body \<Longrightarrow> st \<noteq> 200 \<Longrightarrow> st \<noteq> 403 \<Longrightarrow>
     fetch_loop net q m (i # rest) =
       (Inr (JList []), [Get q m, Error (''Error fetching data: '' @ str_int st)])"
  by simp

lemma reply_cases:
  obtains (failed) "r = ConnectionFailed"
  | (ok) body where "r = Reply 200 body"
  | (limited) body where "r = Reply 403 body"
  | (other) st body where "r = Reply st body" "st \<noteq> 200" "st \<noteq> 403"
  by (cases r) auto

lemma is_403_iff: "is_403 r \<longleftrightarrow> (\<exists>body. r = Reply 403 body)"
  by (cases r) auto

lemma fetch_loop_attempts_le:
  "attempts (snd (fetch_loop net q m ns)) \<le> length ns"
proof (induction ns)
  case Nil
  show ?case by simp
next
  case (Cons i rest)
  show ?case
  proof (cases "net i" rule: reply_cases)
    case failed
    then show ?thesis by (simp add: fetch_loop_failed [where net = net and i = i, OF failed] del: fetch_loop.simps)
  next
    case ok
    then show ?thesis by (simp add: fetch_loop_200 [where net = net and i = i, OF ok] del: fetch_loop.simps)
  next
    case limited
    then show ?thesis using Cons.IH by (simp add: fetch_loop_403 [where net = net and i = i, OF limited] del: fetch_loop.simps)
  next
    case other
    then show ?thesis by (simp add: fetch_loop_other [where net = net and i = i, OF other] del: fetch_loop.simps)
  qed
qed

lemma fetch_loop_waits:
  "waits (snd (fetch_loop net q m ns)) =
     replicate (length (filter is_403
        (map net (take (attempts (snd (fetch_loop net q m ns))) ns)))) 10"
proof (induction ns)
  case Nil
  show ?case by simp
next
  case (Cons i rest)
  show ?case
  proof (cases "net i" rule: reply_cases)
    case failed
    then show ?thesis by (simp add: fetch_loop_failed [where net = net and i = i, OF failed] del: fetch_loop.simps)
  next
    case ok
    then show ?thesis by (simp add: fetch_loop_200 [where net = net and i = i, OF ok] del: fetch_loop.simps)
  next
    case limited
    then show ?thesis using Cons.IH by (simp add: fetch_loop_403 [where net = net and i = i, OF limited] del: fetch_loop.simps)
  next
    case other
    then show ?thesis by (simp add: fetch_loop_other [where net = net and i = i, OF other] del: fetch_loop.simps)
  qed
qed

lemma fetch_loop_all_403:
  "list_all (\<lambda>i. is_403 (net i)) ns \<Longrightarrow>
     fst (fetch_loop net q m ns) = Inr (JList [])
     \<and> attempts (snd (fetch_loop net q m ns)) = length ns
     \<and> waits (snd (fetch_loop net q m ns)) = replicate (length ns) 10"
proof (induction ns)
  case Nil
  show ?case by simp
next
  case (Cons i rest)
  from Cons.prems obtain body where limited: "net i = Reply 403 body"
    by (auto simp: is_403_iff)
  from Cons show ?case
    by (simp add: fetch_loop_403 [where net = net and i = i, OF limited] del: fetch_loop.simps)
qed

text \<open>
  C4. Whatever the replies, \<^verbatim>\<open>fetch_books\<close> issues at most three requests; every wait is
  of 10 seconds and there is one for each reply 403 received. When the three replies are
  403, it returns the empty list after three requests and three waits of 10 seconds, 30
  seconds in all, which is at least 20.
\<close>

theorem fetch_books_at_most_three_attempts:
  "attempts (snd (fetch_books net query max_results)) \<le> 3
   \<and> waits (snd (fetch_books net query max_results)) =
       replicate (length (filter is_403
         (map net [0..<attempts (snd (fetch_books net query max_results))]))) 10
   \<and> ((\<forall>i < 3. is_403 (net i)) \<longrightarrow>
        fst (fetch_books net query max_results) = Inr (JList [])
        \<and> attempts (snd (fetch_books net query max_results)) = 3
        \<and> waits (snd (fetch_books net query max_results)) = [10, 10, 10]
        \<and> 20 \<le> sum_list (waits (snd (fetch_books net query max_results))))"
proof -
  have le: "attempts (snd (fetch_books net query max_results)) \<le> 3"
    using fetch_loop_attempts_le [of net query max_results "[0..<retries]"]
    by (simp add: fetch_books_def retries_def)
  have "take n [0..<retries] = [0..<n]" if "n \<le> 3" for n
    using that by (simp add: retries_def)
  with le have w: "waits (snd (fetch_books net query max_results)) =
       replicate (length (filter is_403
         (map net [0..<attempts (snd (fetch_books net query max_results))]))) 10"
    using fetch_loop_waits [of net query max_results "[0..<retries]"]
    by (simp add: fetch_books_def)
  have all: "fst (fetch_books net query max_results) = Inr (JList [])
        \<and> attempts (snd (fetch_books net query max_results)) = 3
        \<and> waits (snd (fetch_books net query max_results)) = [10, 10, 10]
        \<and> 20 \<le> sum_list (waits (snd (fetch_books net query max_results)))"
    if "\<forall>i < 3. is_403 (net i)"
  proof -
    from that have "list_all (\<lambda>i. is_403 (net i)) [0, 1, 2]"
      by simp
    from fetch_loop_all_403 [OF this, of query max_results] show ?thesis
      by (simp add: fetch_books_def range_retries numeral_3_eq_3)
  qed
  from le w all show ?thesis by blast
qed

theorem fetch_books_at_most_three_attempts_witness:
  "fst (fetch_books (\<lambda>i. Reply 403 None) ''Data Science'' 40) = Inr (JList [])
   \<and> attempts (snd (fetch_books (\<lambda>i. Reply 403 None) ''Data Science'' 40)) = 3
   \<and> waits (snd (fetch_books (\<lambda>i. Reply 403 None) ''Data Science'' 40)) = [10, 10, 10]"
  using fetch_books_at_most_three_attempts [of "\<lambda>i. Reply 403 None" "''Data Science''" 40]
  by (simp add: numeral_3_eq_3)

lemma str_int_500: "str_int 500 = ''500''"
  by code_simp

text \<open>
  C5. When the first reply has a status other than 200 and 403, \<^verbatim>\<open>fetch_books\<close> reports
  the error with the status and returns the empty list: one request, no wait, nothing
  else.
\<close>

theorem fetch_books_other_status:
  assumes "net 0 = Reply status_code body" and "status_code \<noteq> 200" and "status_code \<noteq> 403"
  shows "fetch_books net query max_results =
      (Inr (JList []),
       [Get query max_results, Error (''Error fetching data: '' @ str_int status_code)])
    \<and> attempts (snd (fetch_books net query max_results)) = 1
    \<and> waits (snd (fetch_books net query max_results)) = []
    \<and> filter is_error (snd (fetch_books net query max_results)) =
        [Error (''Error fetching data: '' @ str_int status_code)]"
proof -
  have "fetch_books net query max_results =
      (Inr (JList []),
       [Get query max_results, Error (''Error fetching data: '' @ str_int status_code)])"
    unfolding fetch_books_def range_retries using assms by (rule fetch_loop_other [where net = net and i = 0])
  then show ?thesis by simp
qed

theorem fetch_books_other_status_witness:
  "fetch_books (\<lambda>i. Reply 500 None) ''Data Science'' 40 =
     (Inr (JList []), [Get ''Data Science'' 40, Error ''Error fetching data: 500''])"
  using fetch_books_other_status [of "\<lambda>i. Reply 500 None" 500 None "''Data Science''" 40]
  by (simp add: str_int_500)

section \<open>Properties of the store\<close>

lemma initialize_database_twice:
  "initialize_database (initialize_database db) = initialize_database db"
  by (cases db) (simp_all add: initialize_database_def)

lemma initialize_database_again:
  "(initialize_database ^^ Suc n) db = initialize_database db"
proof (induction n)
  case 0
  show ?case by simp
next
  case (Suc n)
  have "(initialize_database ^^ Suc (Suc n)) db =
      initialize_database ((initialize_database ^^ Suc n) db)"
    by simp
  also have "\<dots> = initialize_database (initialize_database db)"
    by (simp only: Suc.IH)
  finally show ?case
    by (simp only: initialize_database_twice)
qed

text \<open>
  C8. \<^verbatim>\<open>initialize_database\<close> returns a database with the table and raises nothing.
  On a database that has the table it changes nothing, whatever the table is; so once it
  has run, running it again, any number of times, leaves the database as the first run
  left it.
\<close>

theorem initialize_database_idempotent:
  "(\<exists>t. initialize_database db = Some t)
   \<and> (db = Some t \<longrightarrow> initialize_database db = Some t)
   \<and> initialize_database (initialize_database db) = initialize_database db
   \<and> (initialize_database ^^ Suc n) db = initialize_database db
   \<and> initialize_database None = Some new_books_table"
proof -
  have 1: "\<exists>t. initialize_database db = Some t"
    by (cases db) (simp_all add: initialize_database_def)
  have 2: "initialize_database db = Some t" if "db = Some t"
    using that by (simp add: initialize_database_def)
  have 3: "initialize_database None = Some new_books_table"
    by (simp add: initialize_database_def)
  from 1 2 3 initialize_database_twice [of db] initialize_database_again [of n db]
  show ?thesis by blast
qed

theorem initialize_database_idempotent_witness:
  "initialize_database (Some new_books_table) = Some new_books_table
   \<and> initialize_database (initialize_database None) = Some new_books_table"
  using initialize_database_idempotent [of "Some new_books_table" new_books_table 0]
    initialize_database_idempotent [of None new_books_table 0]
  by simp







section \<open>Properties of the query catalog\<close>

text \<open>The order of stored values is total and transitive.\<close>

lemma str_le_total: "str_le s t \<or> str_le t s"
proof (induction s t rule: str_le.induct)
  case (1 t)
  show ?case by simp
next
  case (2 a s)
  show ?case by simp
next
  case (3 a s b t)
  have "(of_char a :: nat) < of_char b \<or> (of_char b :: nat) < of_char a \<or> a = b"
    using of_char_eq_iff [of a b, where ?'a = nat] by linarith
  with 3 show ?case by auto
qed

lemma str_le_trans: "str_le s t \<Longrightarrow> str_le t u \<Longrightarrow> str_le s u"
proof (induction s t arbitrary: u rule: str_le.induct)
  case (1 t)
  show ?case by simp
next
  case (2 a s)
  then show ?case by simp
next
  case (3 a s b t)
  from "3.prems"(2) obtain c u' where u: "u = c # u'"
    by (cases u) simp_all
  from "3.prems" "3.IH" show ?case
    unfolding u by (auto dest: less_trans)
qed

lemma sql_le_total: "sql_le a b \<or> sql_le b a"
  using str_le_total by (cases a; cases b) auto

lemma sql_le_trans: "sql_le a b \<Longrightarrow> sql_le b c \<Longrightarrow> sql_le a c"
  using str_le_trans by (cases a; cases b; cases c) auto

lemma before_total: "before c desc r x \<or> before c desc x r"
  using sql_le_total by (simp add: before_def)

lemma before_trans: "before c desc r x \<Longrightarrow> before c desc x y \<Longrightarrow> before c desc r y"
  using sql_le_trans by (auto simp: before_def split: if_splits)

text \<open>Sorting by insertion arranges the rows, and in order.\<close>

lemma mset_insert_by: "mset (insert_by le r xs) = add_mset r (mset xs)"
  by (induction xs) simp_all

lemma set_insert_by: "set (insert_by le r xs) = insert r (set xs)"
  by (induction xs) auto

lemma sorted_insert_by:
  assumes total: "\<And>x y. le x y \<or> le y x"
    and trans: "\<And>x y z. le x y \<Longrightarrow> le y z \<Longrightarrow> le x z"
  shows "sorted_wrt le xs \<Longrightarrow> sorted_wrt le (insert_by le r xs)"
proof (induction xs)
  case Nil
  show ?case by simp
next
  case (Cons x xs)
  show ?case
  proof (cases "le r x")
    case True
    with Cons.prems trans show ?thesis by auto
  next
    case False
    with total have "le x r" by blast
    with False Cons show ?thesis by (auto simp: set_insert_by)
  qed
qed

lemma mset_order_rows: "mset (order_rows ord rows) = mset rows"
proof (cases ord)
  case None
  then show ?thesis by (simp add: order_rows_def)
next
  case (Some cd)
  obtain c desc where cd: "cd = (c, desc)" by (cases cd)
  have "mset (foldr (insert_by le) rows []) = mset rows" for le
    by (induction rows) (simp_all add: mset_insert_by)
  then show ?thesis by (simp add: order_rows_def Some cd)
qed

lemma sorted_order_rows:
  "sorted_wrt (before c desc) (order_rows (Some (c, desc)) rows)"
proof -
  have "sorted_wrt (before c desc) (foldr (insert_by (before c desc)) rows [])"
  proof (induction rows)
    case Nil
    show ?case by simp
  next
    case (Cons r rows)
    have "sorted_wrt (before c desc)
        (insert_by (before c desc) r (foldr (insert_by (before c desc)) rows []))"
      using before_total before_trans Cons.IH by (rule sorted_insert_by)
    then show ?case by simp
  qed
  then show ?thesis by (simp add: order_rows_def)
qed

text \<open>The rows of a statement with an order and a limit.\<close>

lemma cell_projected:
  "c \<in> set cols \<Longrightarrow> cell (map (\<lambda>c. (c, cell r c)) cols) c = cell r c"
  by (induction cols) (auto simp: cell_def)

lemma run_select_ordered:
  assumes "sel_from q = ''books''" and "sel_order q = Some (c, desc)" and "sel_limit q = Some n"
    and "set (sel_cols q) \<subseteq> set (map fst (tbl_columns t))"
    and "c \<in> set (map fst (tbl_columns t))" and "c \<in> set (sel_cols q)"
  shows "\<exists>rows. mset rows = mset (tbl_rows t)
      \<and> sorted_wrt (before c desc) rows
      \<and> run_select q t = Inr (map (\<lambda>r. map (\<lambda>c. (c, cell r c)) (sel_cols q)) (take n rows))
      \<and> sorted_wrt (before c desc)
          (map (\<lambda>r. map (\<lambda>c. (c, cell r c)) (sel_cols q)) (take n rows))"
proof -
  let ?rows = "order_rows (Some (c, desc)) (tbl_rows t)"
  have 1: "mset ?rows = mset (tbl_rows t)"
    by (rule mset_order_rows)
  have 2: "sorted_wrt (before c desc) ?rows"
    by (rule sorted_order_rows)
  have 3: "run_select q t = Inr (map (\<lambda>r. map (\<lambda>c. (c, cell r c)) (sel_cols q)) (take n ?rows))"
    using assms by (auto simp: run_select_def order_columns_def limit_rows_def list_all_iff)
  have same: "before c desc (map (\<lambda>c. (c, cell r c)) (sel_cols q))
        (map (\<lambda>c. (c, cell x c)) (sel_cols q)) = before c desc r x" for r x
    using assms(6) by (simp add: before_def cell_projected)
  from 2 have "sorted_wrt (before c desc) (take n ?rows)"
    by (rule sorted_wrt_take)
  then have 4: "sorted_wrt (before c desc)
      (map (\<lambda>r. map (\<lambda>c. (c, cell r c)) (sel_cols q)) (take n ?rows))"
    by (simp add: sorted_wrt_map same)
  from 1 2 3 4 show ?thesis by blast
qed

text \<open>The catalog.\<close>

lemma queries_length: "length queries = 20"
  by (simp add: queries_def)

lemma queries_distinct: "distinct (map fst queries)"
  by (simp add: queries_def)

lemma queries_select: "list_all (\<lambda>(name, q). take 7 q = ''SELECT '') queries"
  by (simp add: queries_def)

lemma queries_top_n:
  "list_all (\<lambda>(name, q). top_n name \<noteq> None \<longrightarrow> limit_of q = top_n name) queries"
  by code_simp

lemma top5_text:
  "map_of queries ''Top 5 Most Expensive Books'' =
     Some ''SELECT title, amount_retail_price FROM books ORDER BY amount_retail_price DESC LIMIT 5''"
  by (simp add: queries_def)

lemma top5_parse:
  "parse_select
     ''SELECT title, amount_retail_price FROM books ORDER BY amount_retail_price DESC LIMIT 5'' =
   Some \<lparr>sel_cols = [''title'', ''amount_retail_price''], sel_from = ''books'',
         sel_order = Some (''amount_retail_price'', True), sel_limit = Some 5\<rparr>"
  by code_simp

text \<open>
  C6. The catalog has 20 queries with 20 different names, each a \<^verbatim>\<open>SELECT\<close> statement.
  Every query whose name starts with \<^verbatim>\<open>Top\<close> and a number ends with \<^verbatim>\<open>LIMIT\<close> and that
  number. On a table that has the columns \<^verbatim>\<open>title\<close> and \<^verbatim>\<open>amount_retail_price\<close>, the
  query \<^verbatim>\<open>Top 5 Most Expensive Books\<close> returns the first five rows, or all rows if there
  are fewer, of an arrangement of the rows of the table by retail price, the highest first;
  each row returned has the title and the price.
\<close>

theorem top_n_queries_limit:
  "length queries = 20
   \<and> distinct (map fst queries)
   \<and> list_all (\<lambda>(name, q). take 7 q = ''SELECT '') queries
   \<and> list_all (\<lambda>(name, q). top_n name \<noteq> None \<longrightarrow> limit_of q = top_n name) queries
   \<and> top_n ''Top 5 Most Expensive Books'' = Some 5
   \<and> top_n ''Top 3 Authors with Most Books'' = Some 3
   \<and> (''title'' \<in> set (map fst (tbl_columns t))
        \<and> ''amount_retail_price'' \<in> set (map fst (tbl_columns t)) \<longrightarrow>
      (\<exists>q rows res.
         map_of queries ''Top 5 Most Expensive Books'' = Some q
         \<and> limit_of q = Some 5
         \<and> query_database t q = Some (Inr res)
         \<and> mset rows = mset (tbl_rows t)
         \<and> sorted_wrt (\<lambda>r x. sql_le (cell x ''amount_retail_price'')
                                   (cell r ''amount_retail_price'')) rows
         \<and> res = map (\<lambda>r. [(''title'', cell r ''title''),
                             (''amount_retail_price'', cell r ''amount_retail_price'')])
                   (take 5 rows)
         \<and> length res = min 5 (length (tbl_rows t))
         \<and> length res \<le> 5
         \<and> sorted_wrt (\<lambda>r x. sql_le (cell x ''amount_retail_price'')
                                   (cell r ''amount_retail_price'')) res))"
proof -
  have tops: "top_n ''Top 5 Most Expensive Books'' = Some 5"
    "top_n ''Top 3 Authors with Most Books'' = Some 3"
    by code_simp+
  have limit: "limit_of
      ''SELECT title, amount_retail_price FROM books ORDER BY amount_retail_price DESC LIMIT 5''
      = Some 5"
    by code_simp
  have run: "\<exists>q rows res.
         map_of queries ''Top 5 Most Expensive Books'' = Some q
         \<and> limit_of q = Some 5
         \<and> query_database t q = Some (Inr res)
         \<and> mset rows = mset (tbl_rows t)
         \<and> sorted_wrt (\<lambda>r x. sql_le (cell x ''amount_retail_price'')
                                   (cell r ''amount_retail_price'')) rows
         \<and> res = map (\<lambda>r. [(''title'', cell r ''title''),
                             (''amount_retail_price'', cell r ''amount_retail_price'')])
                   (take 5 rows)
         \<and> length res = min 5 (length (tbl_rows t))
         \<and> length res \<le> 5
         \<and> sorted_wrt (\<lambda>r x. sql_le (cell x ''amount_retail_price'')
                                   (cell r ''amount_retail_price'')) res"
    if cols: "''title'' \<in> set (map fst (tbl_columns t))
        \<and> ''amount_retail_price'' \<in> set (map fst (tbl_columns t))"
  proof -
    let ?q = "\<lparr>sel_cols = [''title'', ''amount_retail_price''], sel_from = ''books'',
         sel_order = Some (''amount_retail_price'', True), sel_limit = Some 5\<rparr>"
    have desc: "before ''amount_retail_price'' True =
        (\<lambda>r x. sql_le (cell x ''amount_retail_price'') (cell r ''amount_retail_price''))"
      by (simp add: before_def fun_eq_iff)
    from cols have "\<exists>rows. mset rows = mset (tbl_rows t)
      \<and> sorted_wrt (before ''amount_retail_price'' True) rows
      \<and> run_select ?q t =
          Inr (map (\<lambda>r. map (\<lambda>c. (c, cell r c)) (sel_cols ?q)) (take 5 rows))
      \<and> sorted_wrt (before ''amount_retail_price'' True)
          (map (\<lambda>r. map (\<lambda>c. (c, cell r c)) (sel_cols ?q)) (take 5 rows))"
      by (intro run_select_ordered) simp_all
    then obtain rows where rows: "mset rows = mset (tbl_rows t)"
      and sorted: "sorted_wrt (\<lambda>r x. sql_le (cell x ''amount_retail_price'')
                                   (cell r ''amount_retail_price'')) rows"
      and res: "run_select ?q t =
          Inr (map (\<lambda>r. [(''title'', cell r ''title''),
                           (''amount_retail_price'', cell r ''amount_retail_price'')])
                 (take 5 rows))"
      and sorted_res: "sorted_wrt (\<lambda>r x. sql_le (cell x ''amount_retail_price'')
                                   (cell r ''amount_retail_price''))
          (map (\<lambda>r. [(''title'', cell r ''title''),
                       (''amount_retail_price'', cell r ''amount_retail_price'')])
             (take 5 rows))"
      unfolding desc by auto
    from rows have "length rows = length (tbl_rows t)"
      by (rule mset_eq_length)
    then have len: "length (map (\<lambda>r. [(''title'', cell r ''title''),
                           (''amount_retail_price'', cell r ''amount_retail_price'')])
                 (take 5 rows)) = min 5 (length (tbl_rows t))"
      by simp
    have "query_database t
        ''SELECT title, amount_retail_price FROM books ORDER BY amount_retail_price DESC LIMIT 5''
        = Some (run_select ?q t)"
      by (simp only: query_database_def top5_parse option.map)
    with top5_text limit rows sorted res sorted_res len show ?thesis
      by (intro exI conjI) (assumption | simp)+
  qed
  from queries_length queries_distinct queries_select queries_top_n tops run
  show ?thesis by blast
qed

theorem top_n_queries_limit_witness:
  "\<exists>q res.
     map_of queries ''Top 5 Most Expensive Books'' = Some q
     \<and> query_database
         (new_books_table\<lparr>tbl_rows :=
            [[(''title'', SText ''A''), (''amount_retail_price'', SNum 8)],
             [(''title'', SText ''B''), (''amount_retail_price'', SNum 20)]]\<rparr>) q
       = Some (Inr res)
     \<and> length res = 2"
proof -
  have "''title'' \<in> set (map fst (tbl_columns (new_books_table\<lparr>tbl_rows :=
            [[(''title'', SText ''A''), (''amount_retail_price'', SNum 8)],
             [(''title'', SText ''B''), (''amount_retail_price'', SNum 20)]]\<rparr>)))
     \<and> ''amount_retail_price'' \<in> set (map fst (tbl_columns (new_books_table\<lparr>tbl_rows :=
            [[(''title'', SText ''A''), (''amount_retail_price'', SNum 8)],
             [(''title'', SText ''B''), (''amount_retail_price'', SNum 20)]]\<rparr>)))"
    by (simp add: new_books_table_def books_schema_def)
  with top_n_queries_limit [of "new_books_table\<lparr>tbl_rows :=
            [[(''title'', SText ''A''), (''amount_retail_price'', SNum 8)],
             [(''title'', SText ''B''), (''amount_retail_price'', SNum 20)]]\<rparr>"]
  obtain q res where "map_of queries ''Top 5 Most Expensive Books'' = Some q"
    and "query_database
         (new_books_table\<lparr>tbl_rows :=
            [[(''title'', SText ''A''), (''amount_retail_price'', SNum 8)],
             [(''title'', SText ''B''), (''amount_retail_price'', SNum 20)]]\<rparr>) q
       = Some (Inr res)"
    and "length res = min 5 (length (tbl_rows (new_books_table\<lparr>tbl_rows :=
            [[(''title'', SText ''A''), (''amount_retail_price'', SNum 8)],
             [(''title'', SText ''B''), (''amount_retail_price'', SNum 20)]]\<rparr>)))"
    by blast
  then show ?thesis by (intro exI [of _ q] exI [of _ res]) simp
qed

end
